theory Spec2Isabelle
  imports Complex_Main
begin

section \<open>Distortion parameters of OSVR RenderManager\<close>

text \<open>
  A shallow embedding of \<^verbatim>\<open>osvr/RenderKit/DistortionParameters.h\<close>: the class
  \<^verbatim>\<open>DistortionParameters\<close>, its default constructor and its constructor from a
  display configuration and an eye index.
\<close>

subsection \<open>Values\<close>

text \<open>
  A C++ \<^verbatim>\<open>float\<close> and a C++ \<^verbatim>\<open>double\<close> are modelled by the real numbers they denote.
  The file stores the literals \<^verbatim>\<open>0.5f\<close>, \<^verbatim>\<open>0\<close> and \<^verbatim>\<open>1\<close>, each of them exactly
  representable, copies floats it is given, and converts two doubles to float.
\<close>

type_synonym float = real

type_synonym double = real

text \<open>
  Rounding of a real number to the nearest integer, the even one of the two when it lies
  half way between them.
\<close>

definition round_half_even :: "real \<Rightarrow> int" where
  "round_half_even x =
     (let n = \<lfloor>x\<rfloor>; d = x - of_int n
      in if d < 1 / 2 then n
         else if 1 / 2 < d then n + 1
         else if even n then n else n + 1)"

text \<open>
  A float (IEEE 754 binary32) has a significand of 24 bits and an exponent between -126
  and 127. \<open>float_exponent_from 127 a\<close> is the exponent of a magnitude \<open>a\<close>: the largest
  \<open>k\<close> between -126 and 127 with \<open>2 powi k \<le> a\<close>, and -126 when there is none (the
  subnormal range).
\<close>

function float_exponent_from :: "int \<Rightarrow> real \<Rightarrow> int" where
  "float_exponent_from k a =
     (if k \<le> - 126 then - 126
      else if 2 powi k \<le> a then k
      else float_exponent_from (k - 1) a)"
  by pat_completeness auto
termination
  by (relation "measure (\<lambda>(k, a). nat (k + 126))") auto

declare float_exponent_from.simps [simp del]

text \<open>
  \<^verbatim>\<open>static_cast<float>\<close>, applied at lines 135--138 to the two coordinates of an eye's
  center of projection: the conversion of a double to float, which narrows. With the
  default rounding of IEEE 754 the result is the float nearest to the operand, the one
  with the even significand when two are equally near. The floats with exponent \<open>k\<close> are
  the multiples of \<open>2 powi (k - 23)\<close>, so the operand is rounded to the nearest multiple of
  that unit.

  A magnitude of \<open>2 ^ 128 - 2 ^ 103\<close> or more converts to an infinity, for which the real
  numbers have no value; the model rounds it at the exponent 127 like the magnitudes
  below. A center of projection is a position in texture coordinates, far from there.
\<close>

definition static_cast_float :: "double \<Rightarrow> float" where
  "static_cast_float x =
     (let q = 2 powi (float_exponent_from 127 \<bar>x\<bar> - 23)
      in of_int (round_half_even (x / q)) * q)"

text \<open>The enumeration \<^verbatim>\<open>DistortionParameters::Type\<close> (lines 109--113).\<close>

datatype Type = mono_point_samples | rgb_point_samples | rgb_symmetric_polynomials

text \<open>
  The class \<^verbatim>\<open>DistortionParameters\<close> (lines 171--206). \<^verbatim>\<open>size_t\<close> is a natural
  number: the only value ever stored is 2. A \<^verbatim>\<open>std::vector<float>\<close> is a list.

  Modelled from the spec: the types \<^verbatim>\<open>MonoPointDistortionMeshDescriptions\<close> and
  \<^verbatim>\<open>RGBPointDistortionMeshDescriptions\<close> are declared in \<^verbatim>\<open>MonoPointMeshTypes.h\<close> and
  \<^verbatim>\<open>RGBPointMeshTypes.h\<close>, not part of this file. The spec calls each of them a
  collection of point-mesh descriptions, opaque to this component, that is empty in a
  default-constructed record: a list over a type parameter (\<open>'mono\<close>, \<open>'rgb\<close>).
\<close>

record ('mono, 'rgb) DistortionParameters =
  m_type :: Type
  m_desiredTriangles :: nat
  m_monoPointSamples :: "'mono list"
  m_rgbPointSamples :: "'rgb list"
  m_distortionPolynomialRed :: "float list"
  m_distortionPolynomialGreen :: "float list"
  m_distortionPolynomialBlue :: "float list"
  m_distortionCOP :: "float list"
  m_distortionD :: "float list"

subsection \<open>The display configuration\<close>

text \<open>
  Modelled from the spec: the class \<^verbatim>\<open>OSVRDisplayConfiguration\<close> is declared in
  \<^verbatim>\<open>osvr_display_configuration.h\<close>, not part of this file; the constructor only calls
  its getters. Section 6 of the spec lists what they provide: a distortion-type indicator
  (symmetric-polynomial, mono-point-sample, rgb-point-sample, or other) and its string
  form, the two distortion distance scales, the three coefficient sequences, the center
  of projection of each eye, and the two point-mesh collections. The configuration is the
  record of the values its getters return, each field named after its getter (the source
  spells \<^verbatim>\<open>getDistortionPolynomalRed\<close> so); the getters have no effect of their own.

  The two coordinates of an eye (\<^verbatim>\<open>EyeInfo\<close>) are doubles: the constructor converts them
  with \<^verbatim>\<open>static_cast<float>\<close> inside the braced initializer of a \<^verbatim>\<open>std::vector<float>\<close>,
  where C++ accepts a narrowing conversion only when it is written out.
\<close>

datatype DistortionType =
    RGB_SYMMETRIC_POLYNOMIALS
  | MONO_POINT_SAMPLES
  | RGB_POINT_SAMPLES
  | OTHER_DISTORTION_TYPE

record EyeInfo =
  m_CenterProjX :: double
  m_CenterProjY :: double

record ('mono, 'rgb) OSVRDisplayConfiguration =
  getDistortionType :: DistortionType
  getDistortionTypeString :: string
  getDistortionDistanceScaleX :: float
  getDistortionDistanceScaleY :: float
  getDistortionPolynomalRed :: "float list"
  getDistortionPolynomalGreen :: "float list"
  getDistortionPolynomalBlue :: "float list"
  getEyes :: "EyeInfo list"
  getDistortionMonoPointMeshes :: "'mono list"
  getDistortionRGBPointMeshes :: "'rgb list"

subsection \<open>Failure and output\<close>

text \<open>
  \<^verbatim>\<open>std::vector::operator[]\<close> does not check its index: reading at an index that is not
  below the size of the vector is undefined behaviour. The model makes it a failure, so
  that no theorem can rest on the value of such a read.
\<close>

datatype error = VectorIndexOutOfRange

definition vector_at :: "'a list \<Rightarrow> nat \<Rightarrow> error + 'a" where
  "vector_at v i = (if i < length v then Inr (v ! i) else Inl VectorIndexOutOfRange)"

text \<open>
  The error stream \<^verbatim>\<open>std::cerr\<close> is the string of the characters written to it so far;
  \<^verbatim>\<open>std::endl\<close> writes a newline.
\<close>

type_synonym ostream = string

definition endl :: string where
  "endl = [CHR 0x0A]"

subsection \<open>The constructors\<close>

text \<open>
  \<^verbatim>\<open>DistortionParameters()\<close> (lines 161--169). The body assigns the type, the five float
  vectors and the triangle count; the two point-sample collections are the ones their
  own default construction gives, empty.
\<close>

definition Default :: "('mono, 'rgb) DistortionParameters" where
  "Default =
     \<lparr> m_type = rgb_symmetric_polynomials,
       m_desiredTriangles = 2,
       m_monoPointSamples = [],
       m_rgbPointSamples = [],
       m_distortionPolynomialRed = [0, 1],
       m_distortionPolynomialGreen = [0, 1],
       m_distortionPolynomialBlue = [0, 1],
       m_distortionCOP = [0.5, 0.5],
       m_distortionD = [1, 1] \<rparr>"

text \<open>
  \<^verbatim>\<open>DistortionParameters(OSVRDisplayConfiguration& osvrParams, size_t eye)\<close>
  (lines 115--159), the spec's \<^verbatim>\<open>Construct\<close>. It takes the error stream as it is before
  the call and returns either a failure or the constructed record with the error stream
  as it is after the call. The branches are tested in the source's order; \<^verbatim>\<open>Ds\<close> is
  built by two \<^verbatim>\<open>push_back\<close>; the eye is read twice, once for each coordinate, and
  each coordinate is converted to float.
\<close>

definition Construct ::
  "('mono, 'rgb) OSVRDisplayConfiguration \<Rightarrow> nat \<Rightarrow> ostream
     \<Rightarrow> error + (('mono, 'rgb) DistortionParameters \<times> ostream)" where
  "Construct osvrParams eye cerr =
     (let this = Default in
      if getDistortionType osvrParams = RGB_SYMMETRIC_POLYNOMIALS then
        (let this = this\<lparr>m_type := rgb_symmetric_polynomials\<rparr>;
             Ds = [];
             Ds = Ds @ [getDistortionDistanceScaleX osvrParams];
             Ds = Ds @ [getDistortionDistanceScaleY osvrParams];
             this = this\<lparr>m_distortionD := Ds\<rparr>;
             this = this\<lparr>m_distortionPolynomialRed := getDistortionPolynomalRed osvrParams\<rparr>;
             this = this\<lparr>m_distortionPolynomialGreen := getDistortionPolynomalGreen osvrParams\<rparr>;
             this = this\<lparr>m_distortionPolynomialBlue := getDistortionPolynomalBlue osvrParams\<rparr>
         in case vector_at (getEyes osvrParams) eye of
              Inl e \<Rightarrow> Inl e
            | Inr eyeX \<Rightarrow>
               (case vector_at (getEyes osvrParams) eye of
                  Inl e \<Rightarrow> Inl e
                | Inr eyeY \<Rightarrow>
                   (let COP = [static_cast_float (m_CenterProjX eyeX),
                               static_cast_float (m_CenterProjY eyeY)];
                        this = this\<lparr>m_distortionCOP := COP\<rparr>
                    in Inr (this, cerr))))
      else if getDistortionType osvrParams = MONO_POINT_SAMPLES then
        (let this = this\<lparr>m_type := mono_point_samples\<rparr>;
             this = this\<lparr>m_monoPointSamples := getDistortionMonoPointMeshes osvrParams\<rparr>
         in Inr (this, cerr))
      else if getDistortionType osvrParams = RGB_POINT_SAMPLES then
        (let this = this\<lparr>m_type := rgb_point_samples\<rparr>;
             this = this\<lparr>m_rgbPointSamples := getDistortionRGBPointMeshes osvrParams\<rparr>
         in Inr (this, cerr))
      else
        Inr (this,
             cerr @ ''DistortionParameters::DistortionParameters(): ''
                  @ ''Unrecognized distortion correction type (''
                  @ getDistortionTypeString osvrParams
                  @ ''), ignoring'' @ endl))"

subsection \<open>A sample configuration\<close>

text \<open>
  A configuration to run the constructors on: a head-mounted display with two eyes,
  quadratic polynomials, and two mono and three RGB mesh descriptions, for which natural
  numbers stand. The distortion type and its string form are left open.
\<close>

definition sample_config :: "DistortionType \<Rightarrow> string \<Rightarrow> (nat, nat) OSVRDisplayConfiguration" where
  "sample_config ty name =
     \<lparr> getDistortionType = ty,
       getDistortionTypeString = name,
       getDistortionDistanceScaleX = 2,
       getDistortionDistanceScaleY = 3,
       getDistortionPolynomalRed = [0, 1, 0.25],
       getDistortionPolynomalGreen = [0, 1, 0.5],
       getDistortionPolynomalBlue = [0, 1, 0.75],
       getEyes = [\<lparr>m_CenterProjX = 0.25, m_CenterProjY = 0.5\<rparr>,
                  \<lparr>m_CenterProjX = 0.75, m_CenterProjY = 0.625\<rparr>],
       getDistortionMonoPointMeshes = [10, 11],
       getDistortionRGBPointMeshes = [20, 21, 22] \<rparr>"

text \<open>
  A symmetric-polynomial configuration whose centers of projection are doubles that no
  float holds: \<open>1/2 + 1/2^30\<close> and \<open>1/2 - 1/2^30\<close> need a significand of 30 bits.
\<close>

definition sample_config_fine :: "(nat, nat) OSVRDisplayConfiguration" where
  "sample_config_fine =
     (sample_config RGB_SYMMETRIC_POLYNOMIALS ''rgb_symmetric_polynomials'')
       \<lparr> getEyes := [\<lparr>m_CenterProjX = 1 / 2 + 1 / 2 ^ 30, m_CenterProjY = 1 / 2\<rparr>,
                     \<lparr>m_CenterProjX = 1 / 2 - 1 / 2 ^ 30, m_CenterProjY = 1 / 2\<rparr>] \<rparr>"

section \<open>The conversion to float\<close>

text \<open>
  The conversion at the coordinates of the sample configurations; the last two operands
  are \<open>1/2 + 1/2^30\<close> and \<open>1/2 - 1/2^30\<close> again, as single fractions.
\<close>

lemma static_cast_float_sample:
  "static_cast_float (1 / 4) = 1 / 4"
  "static_cast_float (1 / 2) = 1 / 2"
  "static_cast_float (3 / 4) = 3 / 4"
  "static_cast_float (5 / 8) = 5 / 8"
  by (simp_all add: static_cast_float_def round_half_even_def float_exponent_from.simps)

lemma static_cast_float_fine:
  "static_cast_float (1 / 2 + 1 / 2 ^ 30) = 1 / 2"
  "static_cast_float (1 / 2 - 1 / 2 ^ 30) = 1 / 2"
  "static_cast_float (536870913 / 1073741824) = 1 / 2"
  "static_cast_float (536870911 / 1073741824) = 1 / 2"
  by (simp_all add: static_cast_float_def round_half_even_def float_exponent_from.simps)

text \<open>
  Ties go to the even significand, and below \<open>2 powi (- 126)\<close> the unit stays
  \<open>2 powi (- 149)\<close>.
\<close>

lemma static_cast_float_ties:
  "static_cast_float (1 + 1 / 2 ^ 24) = 1"
  "static_cast_float (1 + 3 / 2 ^ 24) = 1 + 1 / 2 ^ 22"
  "static_cast_float (3 / 2 ^ 150) = 1 / 2 ^ 148"
  by (simp_all add: static_cast_float_def round_half_even_def float_exponent_from.simps)

lemma round_half_even_of_int: "round_half_even (of_int n) = n"
  by (simp add: round_half_even_def)

lemma float_exponent_from_subnormal:
  "a < 2 powi (- 126) \<Longrightarrow> float_exponent_from k a = - 126"
proof (induction k a rule: float_exponent_from.induct)
  case (1 k a)
  show ?case
  proof (cases "k \<le> - 126")
    case True
    then show ?thesis by (subst float_exponent_from.simps) simp
  next
    case False
    then have "(2::real) powi (- 126) \<le> 2 powi k"
      by (intro power_int_increasing) auto
    with "1.prems" have nle: "\<not> 2 powi k \<le> a" by linarith
    from False nle "1.IH" "1.prems" show ?thesis
      by (subst float_exponent_from.simps) simp
  qed
qed

lemma float_exponent_from_le:
  "2 powi (- 126) \<le> a \<Longrightarrow> 2 powi (float_exponent_from k a) \<le> a"
proof (induction k a rule: float_exponent_from.induct)
  case (1 k a)
  show ?case
  proof (cases "k \<le> - 126")
    case True
    with "1.prems" show ?thesis by (subst float_exponent_from.simps) simp
  next
    case False
    show ?thesis
    proof (cases "2 powi k \<le> a")
      case True
      with False show ?thesis by (subst float_exponent_from.simps) simp
    next
      case nle: False
      with False "1.IH" "1.prems" show ?thesis
        by (subst float_exponent_from.simps) simp
    qed
  qed
qed

text \<open>
  The conversion keeps every value that a float holds: a significand \<open>m\<close> of at most 24
  bits at a unit \<open>2 powi e\<close> that is not below the subnormal one.
\<close>

lemma static_cast_float_exact:
  assumes m: "\<bar>m\<bar> < 2 ^ 24" and e: "- 149 \<le> e"
  shows "static_cast_float (of_int m * 2 powi e) = of_int m * 2 powi e"
proof -
  define x :: real where "x = of_int m * 2 powi e"
  define E where "E = float_exponent_from 127 \<bar>x\<bar>"
  have le: "E - 23 \<le> e"
  proof (cases "\<bar>x\<bar> < 2 powi (- 126)")
    case True
    then have "E = - 126" unfolding E_def by (rule float_exponent_from_subnormal)
    with e show ?thesis by simp
  next
    case False
    then have "2 powi E \<le> \<bar>x\<bar>" unfolding E_def by (intro float_exponent_from_le) simp
    also have "\<bar>x\<bar> = of_int \<bar>m\<bar> * 2 powi e" by (simp add: x_def abs_mult)
    also have "\<dots> < 2 ^ 24 * 2 powi e"
    proof -
      have "(of_int \<bar>m\<bar> :: real) < 2 ^ 24" using m by (metis of_int_less_numeral_power_cancel_iff)
      then show ?thesis by (intro mult_strict_right_mono) auto
    qed
    also have "\<dots> = 2 powi (24 + e)" by (simp add: power_int_add)
    finally have lt: "(2::real) powi E < 2 powi (24 + e)" .
    have "E < 24 + e"
    proof (rule ccontr)
      assume "\<not> E < 24 + e"
      then have "(2::real) powi (24 + e) \<le> 2 powi E"
        by (intro power_int_increasing) auto
      with lt show False by simp
    qed
    then show ?thesis by simp
  qed
  define d where "d = nat (e - (E - 23))"
  have eq: "e = (E - 23) + int d" using le by (simp add: d_def)
  have "x / 2 powi (E - 23) = of_int m * 2 ^ d"
    unfolding x_def by (subst eq) (simp add: power_int_add)
  then have "x / 2 powi (E - 23) = of_int (m * 2 ^ d)" by simp
  then have "round_half_even (x / 2 powi (E - 23)) = m * 2 ^ d"
    by (simp only: round_half_even_of_int)
  then have "static_cast_float x = of_int (m * 2 ^ d) * 2 powi (E - 23)"
    by (simp add: static_cast_float_def E_def)
  also have "\<dots> = x"
  proof -
    have "(2::real) powi e = 2 powi (E - 23) * 2 ^ d"
      by (subst eq) (simp add: power_int_add)
    then show ?thesis by (simp add: x_def)
  qed
  finally show ?thesis by (simp add: x_def)
qed

section \<open>The default record\<close>

text \<open>
  C7. The default-constructed record has type \<open>rgb_symmetric_polynomials\<close>, center of
  projection (0.5, 0.5), distance scale (1, 1), the polynomial [0, 1] for red, green and
  blue, and 2 desired triangles.
\<close>

theorem Default_fields:
  "m_type Default = rgb_symmetric_polynomials
   \<and> m_distortionCOP Default = [0.5, 0.5]
   \<and> m_distortionD Default = [1, 1]
   \<and> m_distortionPolynomialRed Default = [0, 1]
   \<and> m_distortionPolynomialGreen Default = [0, 1]
   \<and> m_distortionPolynomialBlue Default = [0, 1]
   \<and> m_desiredTriangles Default = 2"
  by (simp add: Default_def)


section \<open>The constructor from a configuration\<close>

text \<open>
  C2. When the distortion type of the configuration is none of the three recognized
  values, for every eye index, construction returns the default record: type
  \<open>rgb_symmetric_polynomials\<close>, distance scale (1, 1), center of projection (0.5, 0.5),
  the polynomial [0, 1] for each channel, 2 desired triangles and empty point-sample
  collections. The error stream receives one line, which names the type string of the
  configuration.
\<close>

theorem Construct_unrecognized:
  assumes "getDistortionType osvrParams \<noteq> RGB_SYMMETRIC_POLYNOMIALS"
      and "getDistortionType osvrParams \<noteq> MONO_POINT_SAMPLES"
      and "getDistortionType osvrParams \<noteq> RGB_POINT_SAMPLES"
  shows "\<exists>r. Construct osvrParams eye cerr =
              Inr (r, cerr @ ''DistortionParameters::DistortionParameters(): Unrecognized distortion correction type (''
                           @ getDistortionTypeString osvrParams @ ''), ignoring'' @ endl)
           \<and> r = Default
           \<and> m_type r = rgb_symmetric_polynomials
           \<and> m_distortionD r = [1, 1]
           \<and> m_distortionCOP r = [0.5, 0.5]
           \<and> m_distortionPolynomialRed r = [0, 1]
           \<and> m_distortionPolynomialGreen r = [0, 1]
           \<and> m_distortionPolynomialBlue r = [0, 1]
           \<and> m_desiredTriangles r = 2
           \<and> m_monoPointSamples r = []
           \<and> m_rgbPointSamples r = []"
  using assms by (simp add: Construct_def Default_def)

theorem Construct_unrecognized_witness:
  "getDistortionType (sample_config OTHER_DISTORTION_TYPE ''fisheye'') \<noteq> RGB_SYMMETRIC_POLYNOMIALS
   \<and> getDistortionType (sample_config OTHER_DISTORTION_TYPE ''fisheye'') \<noteq> MONO_POINT_SAMPLES
   \<and> getDistortionType (sample_config OTHER_DISTORTION_TYPE ''fisheye'') \<noteq> RGB_POINT_SAMPLES
   \<and> Construct (sample_config OTHER_DISTORTION_TYPE ''fisheye'') 5 ''log: '' =
       Inr (Default,
            ''log: DistortionParameters::DistortionParameters(): Unrecognized distortion correction type (fisheye), ignoring''
            @ endl)"
  using Construct_unrecognized [of "sample_config OTHER_DISTORTION_TYPE ''fisheye''" 5 "''log: ''"]
  by (simp add: sample_config_def)

text \<open>
  C3, as the spec states it: for a symmetric-polynomial configuration and a valid eye
  index the center of projection of the record is the pair of coordinates of the eye,
  with no transformation of any value. It is not: the constructor converts the two
  coordinates to float. The first eye of \<open>sample_config_fine\<close> has the coordinate
  \<open>1/2 + 1/2^30\<close>, and the record holds \<open>1/2\<close>.
\<close>

theorem Construct_center_unchanged_counterexample:
  "getDistortionType sample_config_fine = RGB_SYMMETRIC_POLYNOMIALS
   \<and> 0 < length (getEyes sample_config_fine)
   \<and> m_CenterProjX (getEyes sample_config_fine ! 0) = 1 / 2 + 1 / 2 ^ 30
   \<and> Construct sample_config_fine 0 []
       = Inr (Default\<lparr>m_distortionD := [2, 3],
                      m_distortionPolynomialRed := [0, 1, 0.25],
                      m_distortionPolynomialGreen := [0, 1, 0.5],
                      m_distortionPolynomialBlue := [0, 1, 0.75],
                      m_distortionCOP := [1 / 2, 1 / 2]\<rparr>, [])
   \<and> (1 / 2 :: real) \<noteq> 1 / 2 + 1 / 2 ^ 30"
  by (simp add: Construct_def Default_def sample_config_fine_def sample_config_def vector_at_def
        static_cast_float_fine static_cast_float_sample)

text \<open>
  C3, amended. When the distortion type is \<open>RGB_SYMMETRIC_POLYNOMIALS\<close> and the eye index
  is valid (below the number of eyes), construction returns a record of type
  \<open>rgb_symmetric_polynomials\<close> whose distance scale is the configuration's pair of
  distance scales and whose red, green and blue polynomials are the configuration's
  coefficient sequences, each copied as it is, and whose center of projection is the pair
  of coordinates of the eye at the given index, each converted to float; nothing is
  written to the error stream.
\<close>

theorem Construct_rgb_symmetric_polynomials:
  assumes "getDistortionType osvrParams = RGB_SYMMETRIC_POLYNOMIALS"
      and "eye < length (getEyes osvrParams)"
  shows "\<exists>r. Construct osvrParams eye cerr = Inr (r, cerr)
           \<and> m_type r = rgb_symmetric_polynomials
           \<and> m_distortionD r =
               [getDistortionDistanceScaleX osvrParams, getDistortionDistanceScaleY osvrParams]
           \<and> m_distortionPolynomialRed r = getDistortionPolynomalRed osvrParams
           \<and> m_distortionPolynomialGreen r = getDistortionPolynomalGreen osvrParams
           \<and> m_distortionPolynomialBlue r = getDistortionPolynomalBlue osvrParams
           \<and> m_distortionCOP r =
               [static_cast_float (m_CenterProjX (getEyes osvrParams ! eye)),
                static_cast_float (m_CenterProjY (getEyes osvrParams ! eye))]"
  using assms by (simp add: Construct_def vector_at_def)

theorem Construct_rgb_symmetric_polynomials_witness:
  "getDistortionType sample_config_fine = RGB_SYMMETRIC_POLYNOMIALS
   \<and> 1 < length (getEyes sample_config_fine)
   \<and> (\<exists>r. Construct sample_config_fine 1 [] = Inr (r, [])
         \<and> m_type r = rgb_symmetric_polynomials
         \<and> m_distortionD r = [2, 3]
         \<and> m_distortionPolynomialRed r = [0, 1, 0.25]
         \<and> m_distortionPolynomialGreen r = [0, 1, 0.5]
         \<and> m_distortionPolynomialBlue r = [0, 1, 0.75]
         \<and> m_distortionCOP r = [static_cast_float (1 / 2 - 1 / 2 ^ 30), static_cast_float (1 / 2)]
         \<and> m_distortionCOP r = [1 / 2, 1 / 2])"
  using Construct_rgb_symmetric_polynomials [of sample_config_fine 1 "[]"]
  by (simp add: sample_config_fine_def sample_config_def static_cast_float_fine
        static_cast_float_sample)

text \<open>
  C5. When the distortion type is \<open>MONO_POINT_SAMPLES\<close>, for every eye index,
  construction returns a record of type \<open>mono_point_samples\<close> whose mono point samples are
  the configuration's mono point-mesh descriptions; the fields of the other variants keep
  their default values: no RGB point samples, the polynomial [0, 1] for each channel,
  center of projection (0.5, 0.5) and distance scale (1, 1).
\<close>

theorem Construct_mono_point_samples:
  assumes "getDistortionType osvrParams = MONO_POINT_SAMPLES"
  shows "\<exists>r. Construct osvrParams eye cerr = Inr (r, cerr)
           \<and> m_type r = mono_point_samples
           \<and> m_monoPointSamples r = getDistortionMonoPointMeshes osvrParams
           \<and> m_rgbPointSamples r = []
           \<and> m_distortionPolynomialRed r = [0, 1]
           \<and> m_distortionPolynomialGreen r = [0, 1]
           \<and> m_distortionPolynomialBlue r = [0, 1]
           \<and> m_distortionCOP r = [0.5, 0.5]
           \<and> m_distortionD r = [1, 1]"
  using assms by (simp add: Construct_def Default_def)

theorem Construct_mono_point_samples_witness:
  "getDistortionType (sample_config MONO_POINT_SAMPLES ''mono_point_samples'') = MONO_POINT_SAMPLES
   \<and> (\<exists>r. Construct (sample_config MONO_POINT_SAMPLES ''mono_point_samples'') 0 [] = Inr (r, [])
         \<and> m_type r = mono_point_samples
         \<and> m_monoPointSamples r = [10, 11]
         \<and> m_rgbPointSamples r = []
         \<and> m_distortionPolynomialRed r = [0, 1]
         \<and> m_distortionPolynomialGreen r = [0, 1]
         \<and> m_distortionPolynomialBlue r = [0, 1]
         \<and> m_distortionCOP r = [0.5, 0.5]
         \<and> m_distortionD r = [1, 1])"
  using Construct_mono_point_samples [of "sample_config MONO_POINT_SAMPLES ''mono_point_samples''" 0 "[]"]
  by (simp add: sample_config_def)

text \<open>
  C6. When the distortion type is \<open>RGB_POINT_SAMPLES\<close>, for every eye index, construction
  returns a record of type \<open>rgb_point_samples\<close> whose RGB point samples are the
  configuration's per-channel point-mesh descriptions.
\<close>

theorem Construct_rgb_point_samples:
  assumes "getDistortionType osvrParams = RGB_POINT_SAMPLES"
  shows "\<exists>r. Construct osvrParams eye cerr = Inr (r, cerr)
           \<and> m_type r = rgb_point_samples
           \<and> m_rgbPointSamples r = getDistortionRGBPointMeshes osvrParams"
  using assms by (simp add: Construct_def)

theorem Construct_rgb_point_samples_witness:
  "getDistortionType (sample_config RGB_POINT_SAMPLES ''rgb_point_samples'') = RGB_POINT_SAMPLES
   \<and> (\<exists>r. Construct (sample_config RGB_POINT_SAMPLES ''rgb_point_samples'') 1 [] = Inr (r, [])
         \<and> m_type r = rgb_point_samples
         \<and> m_rgbPointSamples r = [20, 21, 22])"
  using Construct_rgb_point_samples [of "sample_config RGB_POINT_SAMPLES ''rgb_point_samples''" 1 "[]"]
  by (simp add: sample_config_def)

section \<open>Success and failure of the construction\<close>

text \<open>
  C1, as the spec states it: construction succeeds for every configuration and every eye
  index. It does not: in the symmetric-polynomial branch the constructor reads
  \<^verbatim>\<open>getEyes()[eye]\<close> unchecked, and with the two eyes of the sample configuration the eye
  index 2 is out of range.
\<close>

theorem Construct_always_succeeds_counterexample:
  "Construct (sample_config RGB_SYMMETRIC_POLYNOMIALS ''rgb_symmetric_polynomials'') 2 []
     = Inl VectorIndexOutOfRange"
  by (simp add: Construct_def sample_config_def vector_at_def)

text \<open>
  C1, amended. For every configuration and every eye index that is below the number of
  eyes whenever the distortion type is \<open>RGB_SYMMETRIC_POLYNOMIALS\<close>, construction succeeds
  and yields a record. (For the other distortion types the eye index is free.)
\<close>

theorem Construct_succeeds:
  assumes "getDistortionType osvrParams = RGB_SYMMETRIC_POLYNOMIALS
           \<Longrightarrow> eye < length (getEyes osvrParams)"
  shows "\<exists>r cerr'. Construct osvrParams eye cerr = Inr (r, cerr')"
  using assms by (simp add: Construct_def vector_at_def)

theorem Construct_succeeds_witness:
  "getDistortionType (sample_config RGB_SYMMETRIC_POLYNOMIALS ''rgb_symmetric_polynomials'')
     = RGB_SYMMETRIC_POLYNOMIALS
   \<and> 1 < length (getEyes (sample_config RGB_SYMMETRIC_POLYNOMIALS ''rgb_symmetric_polynomials''))
   \<and> (\<exists>r cerr'. Construct (sample_config RGB_SYMMETRIC_POLYNOMIALS ''rgb_symmetric_polynomials'') 1 []
                  = Inr (r, cerr'))
   \<and> getDistortionType (sample_config MONO_POINT_SAMPLES ''mono_point_samples'')
     \<noteq> RGB_SYMMETRIC_POLYNOMIALS
   \<and> (\<exists>r cerr'. Construct (sample_config MONO_POINT_SAMPLES ''mono_point_samples'') 2 []
                  = Inr (r, cerr'))"
  using Construct_succeeds [of "sample_config RGB_SYMMETRIC_POLYNOMIALS ''rgb_symmetric_polynomials''" 1 "[]"]
        Construct_succeeds [of "sample_config MONO_POINT_SAMPLES ''mono_point_samples''" 2 "[]"]
  by (simp add: sample_config_def)


section \<open>What every construction leaves alone\<close>

text \<open>
  C4. After every construction, by the default constructor or from any configuration
  and eye index, the fields of the variants that the type of the record does not select
  have their default values: the mono point samples are empty unless the type is
  \<open>mono_point_samples\<close>, the RGB point samples are empty unless the type is
  \<open>rgb_point_samples\<close>, and unless the type is \<open>rgb_symmetric_polynomials\<close> each polynomial
  is [0, 1], the center of projection is (0.5, 0.5) and the distance scale is (1, 1).
\<close>

theorem unselected_variants_default:
  assumes "r = Default \<or> Construct osvrParams eye cerr = Inr (r, cerr')"
  shows "(m_type r \<noteq> mono_point_samples \<longrightarrow> m_monoPointSamples r = [])
       \<and> (m_type r \<noteq> rgb_point_samples \<longrightarrow> m_rgbPointSamples r = [])
       \<and> (m_type r \<noteq> rgb_symmetric_polynomials \<longrightarrow>
            m_distortionPolynomialRed r = [0, 1]
            \<and> m_distortionPolynomialGreen r = [0, 1]
            \<and> m_distortionPolynomialBlue r = [0, 1]
            \<and> m_distortionCOP r = [0.5, 0.5]
            \<and> m_distortionD r = [1, 1])"
  using assms
proof
  assume "r = Default"
  then show ?thesis by (simp add: Default_def)
next
  assume "Construct osvrParams eye cerr = Inr (r, cerr')"
  then show ?thesis
    by (auto simp add: Construct_def Default_def vector_at_def Let_def split: if_splits)
qed

theorem unselected_variants_default_witness:
  "(\<exists>r. Construct (sample_config RGB_POINT_SAMPLES ''rgb_point_samples'') 0 [] = Inr (r, [])
        \<and> m_type r \<noteq> mono_point_samples
        \<and> m_monoPointSamples r = []
        \<and> m_type r \<noteq> rgb_symmetric_polynomials
        \<and> m_distortionPolynomialRed r = [0, 1]
        \<and> m_distortionPolynomialGreen r = [0, 1]
        \<and> m_distortionPolynomialBlue r = [0, 1]
        \<and> m_distortionCOP r = [0.5, 0.5]
        \<and> m_distortionD r = [1, 1])
   \<and> (\<exists>r. Construct (sample_config MONO_POINT_SAMPLES ''mono_point_samples'') 0 [] = Inr (r, [])
        \<and> m_type r \<noteq> rgb_point_samples
        \<and> m_rgbPointSamples r = [])"
  using unselected_variants_default
          [where r = "Default\<lparr>m_type := rgb_point_samples, m_rgbPointSamples := [20, 21, 22]\<rparr>"
             and osvrParams = "sample_config RGB_POINT_SAMPLES ''rgb_point_samples''"
             and eye = 0 and cerr = "[]" and cerr' = "[]"]
        unselected_variants_default
          [where r = "Default\<lparr>m_type := mono_point_samples, m_monoPointSamples := [10, 11]\<rparr>"
             and osvrParams = "sample_config MONO_POINT_SAMPLES ''mono_point_samples''"
             and eye = 0 and cerr = "[]" and cerr' = "[]"]
  by (simp add: Construct_def sample_config_def)

text \<open>
  C10. The number of desired triangles is 2 after every construction: the default
  constructor sets it, and the constructor from a configuration changes it on no branch.
\<close>

theorem desiredTriangles_always_2:
  assumes "r = Default \<or> Construct osvrParams eye cerr = Inr (r, cerr')"
  shows "m_desiredTriangles r = 2"
  using assms
proof
  assume "r = Default"
  then show ?thesis by (simp add: Default_def)
next
  assume "Construct osvrParams eye cerr = Inr (r, cerr')"
  then show ?thesis
    by (auto simp add: Construct_def Default_def vector_at_def Let_def split: if_splits)
qed

theorem desiredTriangles_always_2_witness:
  "(\<exists>r. Construct (sample_config RGB_SYMMETRIC_POLYNOMIALS ''rgb_symmetric_polynomials'') 0 []
          = Inr (r, [])
        \<and> m_distortionCOP r = [0.25, 0.5]
        \<and> m_desiredTriangles r = 2)
   \<and> m_desiredTriangles (Default :: (nat, nat) DistortionParameters) = 2"
  using desiredTriangles_always_2
          [where r = "Default\<lparr>m_distortionD := [2, 3],
                             m_distortionPolynomialRed := [0, 1, 0.25],
                             m_distortionPolynomialGreen := [0, 1, 0.5],
                             m_distortionPolynomialBlue := [0, 1, 0.75],
                             m_distortionCOP := [0.25, 0.5]\<rparr>"
             and osvrParams = "sample_config RGB_SYMMETRIC_POLYNOMIALS ''rgb_symmetric_polynomials''"
             and eye = 0 and cerr = "[]" and cerr' = "[]"]
        desiredTriangles_always_2
          [where r = "Default :: (nat, nat) DistortionParameters"
             and osvrParams = "sample_config RGB_SYMMETRIC_POLYNOMIALS ''rgb_symmetric_polynomials''"
             and eye = 0 and cerr = "[]" and cerr' = "[]"]
  by (simp add: Construct_def sample_config_def vector_at_def static_cast_float_sample)

section \<open>Independence of the eye index and of the error stream\<close>

text \<open>
  C8. When the distortion type is not \<open>RGB_SYMMETRIC_POLYNOMIALS\<close>, construction from the
  same configuration with any two eye indices yields the same record (and the same error
  stream). For every configuration, two constructions that yield records yield records
  that differ at most in the center of projection: the eye index reaches the result only
  through that lookup.
\<close>

theorem Construct_eye_independent:
  "(getDistortionType osvrParams \<noteq> RGB_SYMMETRIC_POLYNOMIALS \<longrightarrow>
      (\<exists>r cerr'. Construct osvrParams e1 cerr = Inr (r, cerr')
                \<and> Construct osvrParams e2 cerr = Inr (r, cerr')))
   \<and> (\<forall>r1 c1 r2 c2.
        Construct osvrParams e1 cerr = Inr (r1, c1) \<longrightarrow>
        Construct osvrParams e2 cerr = Inr (r2, c2) \<longrightarrow>
        c2 = c1 \<and> r2 = r1\<lparr>m_distortionCOP := m_distortionCOP r2\<rparr>)"
  by (auto simp add: Construct_def vector_at_def split: if_splits)

theorem Construct_eye_independent_witness:
  "getDistortionType (sample_config RGB_POINT_SAMPLES ''rgb_point_samples'') \<noteq> RGB_SYMMETRIC_POLYNOMIALS
   \<and> (\<exists>r cerr'. Construct (sample_config RGB_POINT_SAMPLES ''rgb_point_samples'') 0 [] = Inr (r, cerr')
               \<and> Construct (sample_config RGB_POINT_SAMPLES ''rgb_point_samples'') 7 [] = Inr (r, cerr'))
   \<and> (\<exists>r1 r2.
         Construct (sample_config RGB_SYMMETRIC_POLYNOMIALS ''rgb_symmetric_polynomials'') 0 [] = Inr (r1, [])
       \<and> Construct (sample_config RGB_SYMMETRIC_POLYNOMIALS ''rgb_symmetric_polynomials'') 1 [] = Inr (r2, [])
       \<and> m_distortionCOP r1 = [0.25, 0.5]
       \<and> m_distortionCOP r2 = [0.75, 0.625]
       \<and> r2 = r1\<lparr>m_distortionCOP := [0.75, 0.625]\<rparr>)"
  using Construct_eye_independent
          [of "sample_config RGB_POINT_SAMPLES ''rgb_point_samples''" 0 "[]" 7]
        Construct_eye_independent
          [of "sample_config RGB_SYMMETRIC_POLYNOMIALS ''rgb_symmetric_polynomials''" 0 "[]" 1]
  by (simp add: Construct_def sample_config_def vector_at_def static_cast_float_sample)

text \<open>
  C9. Construction is deterministic: if construction from a configuration and an eye
  index yields a record, then construction from the same configuration and eye index
  yields the same record again, whatever has been written to the error stream in
  between (the first construction itself may have written to it).
\<close>

theorem Construct_deterministic:
  assumes "Construct osvrParams eye cerr = Inr (r, out)"
  shows "\<exists>out'. Construct osvrParams eye cerr' = Inr (r, out')"
  using assms by (auto simp add: Construct_def vector_at_def split: if_splits)

theorem Construct_deterministic_witness:
  "Construct (sample_config OTHER_DISTORTION_TYPE ''fisheye'') 0 []
     = Inr (Default,
            ''DistortionParameters::DistortionParameters(): Unrecognized distortion correction type (fisheye), ignoring''
            @ endl)
   \<and> (\<exists>out'. Construct (sample_config OTHER_DISTORTION_TYPE ''fisheye'') 0
                 (''DistortionParameters::DistortionParameters(): Unrecognized distortion correction type (fisheye), ignoring''
                  @ endl)
               = Inr (Default, out'))"
  using Construct_deterministic
          [where osvrParams = "sample_config OTHER_DISTORTION_TYPE ''fisheye''" and eye = 0
             and cerr = "[]" and r = Default
             and out = "''DistortionParameters::DistortionParameters(): Unrecognized distortion correction type (fisheye), ignoring'' @ endl"
             and cerr' = "''DistortionParameters::DistortionParameters(): Unrecognized distortion correction type (fisheye), ignoring'' @ endl"]
  by (simp add: Construct_def sample_config_def)


end
